theory Spec2Isabelle
  imports Complex_Main
begin

section \<open>Command and HistoryManager\<close>

text \<open>
  A JavaScript closure either returns or throws; in both cases the mutations it has made
  so far persist.  The state \<open>'s\<close> is everything the closures of a command can reach.
\<close>

datatype 's outcome = Returned 's | Threw 's

fun state_of :: "'s outcome \<Rightarrow> 's" where
  "state_of (Returned s) = s"
| "state_of (Threw s) = s"

text \<open>\<^verbatim>\<open>class Command { constructor(execute, undo) }\<close>: a pair of closures.\<close>

record 's Command =
  cmd_execute :: "'s \<Rightarrow> 's outcome"
  cmd_undo :: "'s \<Rightarrow> 's outcome"

text \<open>\<^verbatim>\<open>class HistoryManager\<close>: \<open>history\<close>, \<open>currentIndex\<close> (starts at \<open>-1\<close>), \<open>maxSize\<close>.\<close>

record 's HistoryManager =
  history :: "'s Command list"
  currentIndex :: int
  maxSize :: int

definition new_HistoryManager :: "int \<Rightarrow> 's HistoryManager" where
  "new_HistoryManager m = \<lparr>history = [], currentIndex = - 1, maxSize = m\<rparr>"

text \<open>
  \<^verbatim>\<open>Array.prototype.slice(0, e)\<close>: a negative end counts from the end of the array,
  an end beyond the length is cut to the length.
\<close>

definition js_slice0 :: "'a list \<Rightarrow> int \<Rightarrow> 'a list" where
  "js_slice0 xs e = (if e < 0 then take (nat (int (length xs) + e)) xs else take (nat e) xs)"

text \<open>
  \<^verbatim>\<open>history[i]\<close> is \<open>undefined\<close> outside the array, and calling a method of
  \<open>undefined\<close> throws a TypeError.
\<close>

definition js_index :: "'a list \<Rightarrow> int \<Rightarrow> 'a option" where
  "js_index xs i = (if 0 \<le> i \<and> i < int (length xs) then Some (xs ! nat i) else None)"

text \<open>
  \<^verbatim>\<open>execute(command)\<close>: run the command, cut the entries ahead of the cursor, push, and
  either drop the oldest entry (over capacity) or advance the cursor.  When
  \<^verbatim>\<open>command.execute()\<close> throws, nothing is recorded.
\<close>

definition hm_execute ::
  "'s Command \<Rightarrow> 's HistoryManager \<Rightarrow> 's \<Rightarrow> 's HistoryManager \<times> 's outcome" where
  "hm_execute command hm s =
     (case cmd_execute command s of
        Threw s' \<Rightarrow> (hm, Threw s')
      | Returned s' \<Rightarrow>
          let h1 = (if currentIndex hm < int (length (history hm)) - 1
                    then js_slice0 (history hm) (currentIndex hm + 1)
                    else history hm);
              h2 = h1 @ [command]
          in if int (length h2) > maxSize hm
             then (hm\<lparr>history := tl h2\<rparr>, Returned s')
             else (hm\<lparr>history := h2, currentIndex := currentIndex hm + 1\<rparr>, Returned s'))"

definition canUndo :: "'s HistoryManager \<Rightarrow> bool" where
  "canUndo hm = (currentIndex hm \<ge> 0)"

definition canRedo :: "'s HistoryManager \<Rightarrow> bool" where
  "canRedo hm = (currentIndex hm < int (length (history hm)) - 1)"

text \<open>\<^verbatim>\<open>undo()\<close>: the cursor moves only after the command's \<open>undo\<close> has returned.\<close>

definition hm_undo :: "'s HistoryManager \<Rightarrow> 's \<Rightarrow> 's HistoryManager \<times> 's outcome" where
  "hm_undo hm s =
     (if currentIndex hm \<ge> 0 then
        (case js_index (history hm) (currentIndex hm) of
           None \<Rightarrow> (hm, Threw s)
         | Some c \<Rightarrow>
             (case cmd_undo c s of
                Threw s' \<Rightarrow> (hm, Threw s')
              | Returned s' \<Rightarrow> (hm\<lparr>currentIndex := currentIndex hm - 1\<rparr>, Returned s')))
      else (hm, Returned s))"

text \<open>\<^verbatim>\<open>redo()\<close>: the cursor moves first, then the command's \<open>execute\<close> runs.\<close>

definition hm_redo :: "'s HistoryManager \<Rightarrow> 's \<Rightarrow> 's HistoryManager \<times> 's outcome" where
  "hm_redo hm s =
     (if currentIndex hm < int (length (history hm)) - 1 then
        (let hm1 = hm\<lparr>currentIndex := currentIndex hm + 1\<rparr>
         in case js_index (history hm1) (currentIndex hm1) of
              None \<Rightarrow> (hm1, Threw s)
            | Some c \<Rightarrow> (hm1, cmd_execute c s))
      else (hm, Returned s))"

text \<open>\<open>n\<close> calls of \<^verbatim>\<open>undo()\<close> in a row, stopping at the first that throws.\<close>

fun hm_undo_times :: "nat \<Rightarrow> 's HistoryManager \<Rightarrow> 's \<Rightarrow> 's HistoryManager \<times> 's outcome" where
  "hm_undo_times 0 hm s = (hm, Returned s)"
| "hm_undo_times (Suc n) hm s =
     (case hm_undo hm s of
        (hm', Threw s') \<Rightarrow> (hm', Threw s')
      | (hm', Returned s') \<Rightarrow> hm_undo_times n hm' s')"


text \<open>An example command over an integer state: \<open>execute\<close> adds one, \<open>undo\<close> takes it off.\<close>

definition counting_command :: "int Command" where
  "counting_command =
     \<lparr>cmd_execute = (\<lambda>s. Returned (s + 1)), cmd_undo = (\<lambda>s. Returned (s - 1))\<rparr>"

section \<open>AnimationQueue\<close>

text \<open>
  \<^verbatim>\<open>class AnimationQueue\<close>: the array \<open>queue\<close> of entries
  \<^verbatim>\<open>{fn, resolve, reject}\<close> and the flag \<open>running\<close>.  An entry is kept abstract
  (\<open>'e\<close>): for the trace model below it is the animation function with the ticket of
  the caller that holds \<open>resolve\<close> and \<open>reject\<close>.
\<close>

record 'e AnimationQueue =
  queue :: "'e list"
  running :: bool

definition new_AnimationQueue :: "'e AnimationQueue" where
  "new_AnimationQueue = \<lparr>queue = [], running = False\<rparr>"

text \<open>
  \<^verbatim>\<open>processQueue()\<close> up to its \<^verbatim>\<open>await fn()\<close>: with an empty queue it clears
  \<open>running\<close> and returns; otherwise it sets \<open>running\<close>, shifts the first entry and
  calls its \<open>fn\<close>.  The entry whose \<open>fn\<close> has just been called is returned with the
  queue; the rest of the body (\<^verbatim>\<open>resolve\<close> or \<^verbatim>\<open>reject\<close>, then
  \<^verbatim>\<open>this.processQueue()\<close> again) runs when the promise of \<open>fn\<close> settles.
\<close>

definition processQueue :: "'e AnimationQueue \<Rightarrow> 'e AnimationQueue \<times> 'e option" where
  "processQueue q =
     (if length (queue q) = 0 then (q\<lparr>running := False\<rparr>, None)
      else (q\<lparr>running := True, queue := tl (queue q)\<rparr>, Some (hd (queue q))))"

text \<open>\<^verbatim>\<open>add(animationFn)\<close>: push, and start processing unless already running.\<close>

definition queue_add :: "'e \<Rightarrow> 'e AnimationQueue \<Rightarrow> 'e AnimationQueue \<times> 'e option" where
  "queue_add e q =
     (let q1 = q\<lparr>queue := queue q @ [e]\<rparr>
      in if \<not> running q1 then processQueue q1 else (q1, None))"

subsection \<open>The queue with its suspended frames and a trace\<close>

text \<open>
  The environment of the queue: callers that call \<open>add\<close>, and promises returned by the
  animation functions that settle.  A run is any sequence of such events.  The frames of
  \<open>processQueue\<close> suspended at \<^verbatim>\<open>await fn()\<close> are kept in a list, so that "at most one
  in flight" is a property to prove and not a feature of the type.  \<open>Settle i out\<close>
  settles the promise awaited by the \<open>i\<close>-th suspended frame; a function that throws when
  called is a \<open>Settle\<close> with \<open>Rejected\<close> right after its start.
\<close>

datatype settlement = Fulfilled | Rejected

datatype 'f qevent = Add 'f | Settle nat settlement

text \<open>
  What is observed: ticket \<open>t\<close> submitted (the \<open>t\<close>-th call of \<open>add\<close>), the function of
  ticket \<open>t\<close> called, the promise given to the caller of ticket \<open>t\<close> resolved or
  rejected.
\<close>

datatype obs = Submitted nat | Started nat | Delivered nat settlement

record 'f qsys =
  aq :: "('f \<times> nat) AnimationQueue"
  awaiting :: "('f \<times> nat) list"
  tickets :: nat
  trace :: "obs list"

definition qsys_init :: "'f qsys" where
  "qsys_init = \<lparr>aq = new_AnimationQueue, awaiting = [], tickets = 0, trace = []\<rparr>"

fun started_entry :: "('f \<times> nat) option \<Rightarrow> 'f qsys \<Rightarrow> 'f qsys" where
  "started_entry None s = s"
| "started_entry (Some e) s = s\<lparr>awaiting := awaiting s @ [e], trace := trace s @ [Started (snd e)]\<rparr>"

fun qstep :: "'f qevent \<Rightarrow> 'f qsys \<Rightarrow> 'f qsys" where
  "qstep (Add f) s =
     (let t = tickets s;
          (q', st) = queue_add (f, t) (aq s)
      in started_entry st (s\<lparr>aq := q', tickets := t + 1, trace := trace s @ [Submitted t]\<rparr>))"
| "qstep (Settle i out) s =
     (if i < length (awaiting s) then
        (let e = awaiting s ! i;
             s1 = s\<lparr>awaiting := take i (awaiting s) @ drop (Suc i) (awaiting s),
                    trace := trace s @ [Delivered (snd e) out]\<rparr>;
             (q', st) = processQueue (aq s1)
         in started_entry st (s1\<lparr>aq := q'\<rparr>))
      else s)"

definition qrun :: "'f qevent list \<Rightarrow> 'f qsys \<Rightarrow> 'f qsys" where
  "qrun evs s = fold qstep evs s"

text \<open>Projections of the trace.\<close>

fun started :: "obs list \<Rightarrow> nat list" where
  "started [] = []"
| "started (Started t # os) = t # started os"
| "started (_ # os) = started os"

fun delivered :: "obs list \<Rightarrow> (nat \<times> settlement) list" where
  "delivered [] = []"
| "delivered (Delivered t out # os) = (t, out) # delivered os"
| "delivered (_ # os) = delivered os"

text \<open>
  The outcomes the environment gave, in order, counting only a \<open>Settle\<close> that hit a
  suspended frame.
\<close>

fun settled_outcomes :: "'f qevent list \<Rightarrow> 'f qsys \<Rightarrow> settlement list" where
  "settled_outcomes [] s = []"
| "settled_outcomes (Add f # evs) s = settled_outcomes evs (qstep (Add f) s)"
| "settled_outcomes (Settle i out # evs) s =
     (if i < length (awaiting s) then [out] else []) @ settled_outcomes evs (qstep (Settle i out) s)"

text \<open>
  \<open>sequential n os\<close>: reading the trace \<open>os\<close> with \<open>n\<close> functions in flight at its
  start, a function is started only when none is in flight, and a delivery happens only
  for the one in flight.
\<close>

fun sequential :: "nat \<Rightarrow> obs list \<Rightarrow> bool" where
  "sequential n [] = True"
| "sequential n (Submitted t # os) = sequential n os"
| "sequential n (Started t # os) = (n = 0 \<and> sequential 1 os)"
| "sequential n (Delivered t out # os) = (n = 1 \<and> sequential 0 os)"

fun in_flight :: "obs list \<Rightarrow> int" where
  "in_flight [] = 0"
| "in_flight (Started t # os) = in_flight os + 1"
| "in_flight (Delivered t out # os) = in_flight os - 1"
| "in_flight (_ # os) = in_flight os"

text \<open>
  What every run from the initial state keeps: at most one frame is suspended, and
  \<open>running\<close> is set exactly then; nothing waits in the queue unless a function is in
  flight; the tickets started, followed by those still queued, are the tickets
  submitted, in order; the tickets delivered, followed by the one in flight, are the
  tickets started; the trace is sequential.
\<close>

definition qinv :: "'f qsys \<Rightarrow> bool" where
  "qinv s =
     (length (awaiting s) \<le> 1
      \<and> (running (aq s) \<longleftrightarrow> awaiting s \<noteq> [])
      \<and> (awaiting s = [] \<longrightarrow> queue (aq s) = [])
      \<and> started (trace s) @ map snd (queue (aq s)) = [0..<tickets s]
      \<and> map fst (delivered (trace s)) @ map snd (awaiting s) = started (trace s)
      \<and> sequential 0 (trace s)
      \<and> in_flight (trace s) = int (length (awaiting s)))"

section \<open>The scene: fabric objects, canvas, editor fields\<close>

text \<open>
  The editor is modelled after \<^verbatim>\<open>init()\<close> and before \<^verbatim>\<open>dispose()\<close>: the fabric
  canvas exists.  Of the fabric library only what the editor's code reads and writes is
  kept.  Not modelled: DOM updates (\<^verbatim>\<open>_updateUI\<close>, \<^verbatim>\<open>_updateInputs\<close>,
  \<^verbatim>\<open>_updateMaskList\<close>, placeholder), rendering, the text labels of masks (they are
  removed before every snapshot and every export), hover handlers, the size of the
  canvas and the position of the base image (both follow from fabric's bounding
  rectangles).  Numbers are reals: \<open>NaN\<close> and the infinities are left out.

  A fabric object is a JavaScript object, shared by reference between the canvas, the
  field \<^verbatim>\<open>originalImage\<close>, the active selection and \<^verbatim>\<open>_lastMask\<close>.  The model
  keeps every object ever created in a store (a list, the reference is the index) and
  the canvas holds references, back to front.
\<close>

text \<open>The base image: \<^verbatim>\<open>fabric.Image\<close> with its source element.\<close>

record fimage =
  img_width :: nat
  img_height :: nat
  img_scaleX :: real
  img_scaleY :: real
  img_angle :: real
  img_element :: bool

datatype shape = Rect | Circle | Ellipse

text \<open>
  A mask: the fabric shape with the two custom fields \<^verbatim>\<open>maskId\<close> and
  \<^verbatim>\<open>maskName\<close>.  \<^verbatim>\<open>stroke: null\<close> is \<open>None\<close>.
\<close>

record fmask =
  maskId :: nat
  maskName :: string
  m_shape :: shape
  m_left :: real
  m_top :: real
  m_width :: real
  m_height :: real
  m_scaleX :: real
  m_angle :: real
  m_fill :: string
  m_opacity :: real
  m_stroke :: "string option"
  m_strokeWidth :: real
  m_strokeUniform :: bool
  m_selectable :: bool
  m_lockRotation :: bool

datatype fobj = Img fimage | Msk fmask

text \<open>\<^verbatim>\<open>o.maskId\<close> is truthy: the object is a mask (ids start at 1).\<close>

fun has_maskId :: "fobj \<Rightarrow> bool" where
  "has_maskId (Msk m) = (maskId m \<noteq> 0)"
| "has_maskId (Img i) = False"

text \<open>\<^verbatim>\<open>o.type === 'image' && !o.maskId\<close>.\<close>

fun plain_image :: "fobj \<Rightarrow> bool" where
  "plain_image (Img i) = True"
| "plain_image (Msk m) = False"

fun maskId_of :: "fobj \<Rightarrow> nat" where
  "maskId_of (Msk m) = maskId m"
| "maskId_of (Img i) = 0"

text \<open>
  fabric 5, \<^verbatim>\<open>getScaledWidth()\<close> of an unskewed object: the scaled width with the
  stroke, which is not scaled when \<^verbatim>\<open>strokeUniform\<close> is set.
\<close>

fun getScaledWidth :: "fobj \<Rightarrow> real" where
  "getScaledWidth (Msk m) =
     (if m_strokeUniform m then m_width m * m_scaleX m + m_strokeWidth m
      else (m_width m + m_strokeWidth m) * m_scaleX m)"
| "getScaledWidth (Img i) = real (img_width i) * img_scaleX i"

fun obj_left :: "fobj \<Rightarrow> real" where
  "obj_left (Msk m) = m_left m"
| "obj_left (Img i) = 0"

fun obj_top :: "fobj \<Rightarrow> real" where
  "obj_top (Msk m) = m_top m"
| "obj_top (Img i) = 0"

text \<open>
  \<^verbatim>\<open>canvas.toJSON(['maskId', 'maskName'])\<close> keeps of every object the serialised
  properties of fabric and the two custom fields; \<^verbatim>\<open>selectable\<close> and
  \<^verbatim>\<open>lockRotation\<close> are not among them and come back with fabric's defaults.  A
  snapshot is the list of the objects of the canvas as they come back from it.
\<close>

fun serialise :: "fobj \<Rightarrow> fobj" where
  "serialise (Img i) = Img i"
| "serialise (Msk m) = Msk (m\<lparr>m_selectable := True, m_lockRotation := False\<rparr>)"

type_synonym snapshot = "fobj list"

record options =
  minScale :: real
  maxScale :: real
  canvasWidth :: real
  canvasHeight :: real
  expandCanvasToImage :: bool
  fitImageToCanvas :: bool
  downsampleOnLoad :: bool
  downsampleMaxWidth :: real
  downsampleMaxHeight :: real
  exportMultiplier :: real
  exportImageAreaByDefault :: bool
  defaultMaskWidth :: real
  defaultMaskHeight :: real
  maskRotatable :: bool
  opt_maskName :: string

text \<open>
  The fields of \<^verbatim>\<open>ImageEditor\<close> apart from its HistoryManager and AnimationQueue,
  with the state of the canvas (\<open>objects\<close>, \<open>activeObject\<close>), the client size of the
  container element if there is one, and the variables \<^verbatim>\<open>executedOnce\<close> captured by
  the closures of \<^verbatim>\<open>saveState\<close> (one per call, in the order of the calls).
\<close>

record core =
  opts :: options
  fabricLoaded :: bool
  store :: "fobj list"
  objects :: "nat list"
  activeObject :: "nat option"
  containerClient :: "(real \<times> real) option"
  originalImage :: "nat option"
  baseImageScale :: real
  currentScale :: real
  currentRotation :: real
  maskCounter :: nat
  isAnimating :: bool
  isImageLoadedToCanvas :: bool
  lastMaskInitialLeft :: "real option"
  lastMaskInitialTop :: "real option"
  lastMaskInitialWidth :: "real option"
  lastMask :: "nat option"
  lastSnapshot :: "snapshot option"
  executedOnce :: "bool list"

record editor =
  core :: core
  historyManager :: "core HistoryManager"

definition default_options :: options where
  "default_options =
     \<lparr>minScale = 1 / 10, maxScale = 5, canvasWidth = 800, canvasHeight = 600,
      expandCanvasToImage = True, fitImageToCanvas = False,
      downsampleOnLoad = True, downsampleMaxWidth = 4000, downsampleMaxHeight = 3000,
      exportMultiplier = 1, exportImageAreaByDefault = True,
      defaultMaskWidth = 50, defaultMaskHeight = 80, maskRotatable = False,
      opt_maskName = ''mask''\<rparr>"

text \<open>The constructor followed by \<^verbatim>\<open>init()\<close> without an initial image.\<close>

definition new_core :: "options \<Rightarrow> (real \<times> real) option \<Rightarrow> core" where
  "new_core os cont =
     \<lparr>opts = os, fabricLoaded = True, store = [], objects = [], activeObject = None,
      containerClient = cont, originalImage = None, baseImageScale = 1, currentScale = 1,
      currentRotation = 0, maskCounter = 0, isAnimating = False,
      isImageLoadedToCanvas = False,
      lastMaskInitialLeft = None, lastMaskInitialTop = None, lastMaskInitialWidth = None,
      lastMask = None, lastSnapshot = None, executedOnce = []\<rparr>"

definition new_editor :: "options \<Rightarrow> (real \<times> real) option \<Rightarrow> editor" where
  "new_editor os cont = \<lparr>core = new_core os cont, historyManager = new_HistoryManager 50\<rparr>"

subsection \<open>Canvas helpers\<close>

text \<open>The objects of the canvas, read through the store.\<close>

definition getObjects :: "core \<Rightarrow> fobj list" where
  "getObjects c = map (\<lambda>r. store c ! r) (objects c)"

text \<open>\<^verbatim>\<open>this.canvas.getObjects().filter(o => o.maskId)\<close>, as references.\<close>

definition mask_refs :: "core \<Rightarrow> nat list" where
  "mask_refs c = filter (\<lambda>r. has_maskId (store c ! r)) (objects c)"

text \<open>\<open>forEach\<close> over objects of the canvas: each referenced object is updated once.\<close>

definition update_store :: "(nat \<Rightarrow> fobj \<Rightarrow> fobj) \<Rightarrow> nat list \<Rightarrow> fobj list \<Rightarrow> fobj list" where
  "update_store f rs st =
     map (\<lambda>(r, ob). if r \<in> set rs then f r ob else ob) (zip [0..<length st] st)"

fun set_stroke :: "string option \<Rightarrow> real \<Rightarrow> fobj \<Rightarrow> fobj" where
  "set_stroke col w (Msk m) = Msk (m\<lparr>m_stroke := col, m_strokeWidth := w\<rparr>)"
| "set_stroke col w (Img i) = Img i"

text \<open>
  \<^verbatim>\<open>_onSelectionChanged(selected)\<close>: the selected mask gets the red stroke, every other
  mask of the canvas the neutral one.
\<close>

definition onSelectionChanged :: "nat option \<Rightarrow> core \<Rightarrow> core" where
  "onSelectionChanged selectedMask c =
     c\<lparr>store := update_store
         (\<lambda>r ob. if Some r \<noteq> selectedMask then set_stroke (Some ''#ccc'') 1 ob
                 else set_stroke (Some ''#ff0000'') 1 ob)
         (mask_refs c) (store c)\<rparr>"

text \<open>
  \<^verbatim>\<open>canvas.discardActiveObject()\<close>: when there was an active object fabric fires
  \<^verbatim>\<open>selection:cleared\<close>, which \<^verbatim>\<open>_initCanvas\<close> has wired to
  \<^verbatim>\<open>_onSelectionChanged([])\<close>.
\<close>

definition discardActiveObject :: "core \<Rightarrow> core" where
  "discardActiveObject c =
     (case activeObject c of
        None \<Rightarrow> c
      | Some a \<Rightarrow> onSelectionChanged None (c\<lparr>activeObject := None\<rparr>))"

text \<open>\<^verbatim>\<open>canvas.clear()\<close> discards the selection and removes every object.\<close>

definition canvas_clear :: "core \<Rightarrow> core" where
  "canvas_clear c = (discardActiveObject c)\<lparr>objects := []\<rparr>"

text \<open>\<^verbatim>\<open>canvas.sendToBack(o)\<close>.\<close>

definition sendToBack :: "nat \<Rightarrow> nat list \<Rightarrow> nat list" where
  "sendToBack r rs = (if r \<in> set rs then r # remove1 r rs else rs)"

subsection \<open>Snapshots: \<^verbatim>\<open>loadFromState\<close>, \<^verbatim>\<open>saveState\<close>, \<^verbatim>\<open>undo\<close>, \<^verbatim>\<open>redo\<close>\<close>

definition toJSON :: "core \<Rightarrow> snapshot" where
  "toJSON c = map serialise (getObjects c)"

text \<open>
  \<^verbatim>\<open>canvas.loadFromJSON(json, callback)\<close>, taken as one step: the canvas is cleared
  and holds fresh objects built from the snapshot, in its order.
\<close>

definition loadFromJSON :: "snapshot \<Rightarrow> core \<Rightarrow> core" where
  "loadFromJSON json c =
     (let c1 = canvas_clear c; n = length (store c1)
      in c1\<lparr>store := store c1 @ json, objects := [n ..< n + length json]\<rparr>)"

text \<open>
  \<^verbatim>\<open>loadFromState(jsonString)\<close> with the callback of \<^verbatim>\<open>loadFromJSON\<close>.  A snapshot
  is a non-empty string, so the first guard never fires.  When the snapshot holds no
  image, \<^verbatim>\<open>this.originalImage.set\<close> throws inside the callback: the rest of the
  callback is skipped and the error does not reach the caller of \<open>loadFromState\<close>.
\<close>

definition loadFromState :: "snapshot \<Rightarrow> core \<Rightarrow> core" where
  "loadFromState json c =
     (let c1 = loadFromJSON json c
      in case find (\<lambda>r. plain_image (store c1 ! r)) (objects c1) of
           None \<Rightarrow> c1\<lparr>originalImage := None\<rparr>
         | Some r \<Rightarrow>
             (let c2 = c1\<lparr>originalImage := Some r, objects := sendToBack r (objects c1)\<rparr>
              in c2\<lparr>maskCounter :=
                      fold (\<lambda>m mx. max mx (maskId_of (store c2 ! m))) (mask_refs c2) 0\<rparr>))"

text \<open>
  The command built by \<^verbatim>\<open>saveState()\<close>: \<open>execute\<close> reloads \<open>after\<close> except on its
  first call, \<open>undo\<close> reloads \<open>before\<close>.  \<open>k\<close> is the place of the closure's variable
  \<^verbatim>\<open>executedOnce\<close>.
\<close>

definition snapshot_command :: "nat \<Rightarrow> snapshot \<Rightarrow> snapshot \<Rightarrow> core Command" where
  "snapshot_command k before after =
     \<lparr>cmd_execute = (\<lambda>s. Returned
         ((if executedOnce s ! k then loadFromState after s else s)
            \<lparr>executedOnce := (executedOnce s)[k := True]\<rparr>)),
      cmd_undo = (\<lambda>s. Returned (loadFromState before s))\<rparr>"

definition saveState :: "editor \<Rightarrow> editor" where
  "saveState ed =
     (let c = core ed;
          after = toJSON c;
          before = (case lastSnapshot c of None \<Rightarrow> after | Some b \<Rightarrow> b);
          k = length (executedOnce c);
          c0 = c\<lparr>executedOnce := executedOnce c @ [False]\<rparr>;
          (hm', out) = hm_execute (snapshot_command k before after) (historyManager ed) c0
      in \<lparr>core = (state_of out)\<lparr>lastSnapshot := Some after\<rparr>, historyManager = hm'\<rparr>)"


definition redo :: "editor \<Rightarrow> editor" where
  "redo ed =
     (let (hm', out) = hm_redo (historyManager ed) (core ed)
      in \<lparr>core = state_of out, historyManager = hm'\<rparr>)"

subsection \<open>\<^verbatim>\<open>loadImage\<close>\<close>





text \<open>\<^verbatim>\<open>Math.min(cw / imgW, ch / imgH, 1)\<close>, a zero side giving \<open>Infinity\<close>.\<close>

definition fitScale :: "real \<Rightarrow> real \<Rightarrow> nat \<Rightarrow> nat \<Rightarrow> real" where
  "fitScale cw ch imgW imgH =
     min (if imgW = 0 then 1 else cw / real imgW) (min (if imgH = 0 then 1 else ch / real imgH) 1)"

text \<open>
  The callback given to \<^verbatim>\<open>fabric.Image.fromURL\<close>: the canvas is cleared, the new
  image becomes the only object, and placement memory, mask counter, scale and rotation
  are reset.  \<^verbatim>\<open>_lastMask\<close> is not touched.
\<close>

definition loadImage_onload :: "nat \<Rightarrow> nat \<Rightarrow> core \<Rightarrow> core" where
  "loadImage_onload imgW imgH c =
     (let c1 = canvas_clear (discardActiveObject c);
          os = opts c;
          minW = (case containerClient c of
                    None \<Rightarrow> canvasWidth os
                  | Some (w, h) \<Rightarrow> of_int \<lfloor>if w = 0 then canvasWidth os else w\<rfloor>);
          minH = (case containerClient c of
                    None \<Rightarrow> canvasHeight os
                  | Some (w, h) \<Rightarrow> of_int \<lfloor>if h = 0 then canvasHeight os else h\<rfloor>);
          fit = fitScale (max (canvasWidth os) minW) (max (canvasHeight os) minH) imgW imgH;
          sc = (if fitImageToCanvas os then fit else if expandCanvasToImage os then 1 else fit);
          base = (if fitImageToCanvas os \<or> \<not> expandCanvasToImage os
                  then (if sc = 0 then 1 else sc) else 1);
          r = length (store c1)
      in c1\<lparr>store := store c1 @
                [Img \<lparr>img_width = imgW, img_height = imgH, img_scaleX = sc, img_scaleY = sc,
                      img_angle = 0, img_element = True\<rparr>],
             objects := [r],
             originalImage := Some r,
             baseImageScale := base,
             lastMaskInitialLeft := None,
             lastMaskInitialTop := None,
             lastMaskInitialWidth := None,
             maskCounter := 0,
             currentScale := 1,
             currentRotation := 0,
             isImageLoadedToCanvas := True\<rparr>)"

subsection \<open>\<^verbatim>\<open>_scaleImageImpl\<close> and \<^verbatim>\<open>_rotateImageImpl\<close>\<close>

text \<open>
  The promise an implementation returns: already resolved (\<^verbatim>\<open>Promise.resolve()\<close>),
  or pending on the animation towards a target.
\<close>

datatype pending = Resolved | ScaleAnimation real | RotateAnimation real

fun set_scale :: "real \<Rightarrow> fobj \<Rightarrow> fobj" where
  "set_scale t (Img i) = Img (i\<lparr>img_scaleX := t, img_scaleY := t\<rparr>)"
| "set_scale t (Msk m) = Msk (m\<lparr>m_scaleX := t\<rparr>)"

fun set_angle :: "real \<Rightarrow> fobj \<Rightarrow> fobj" where
  "set_angle t (Img i) = Img (i\<lparr>img_angle := t\<rparr>)"
| "set_angle t (Msk m) = Msk (m\<lparr>m_angle := t\<rparr>)"

text \<open>The synchronous part of \<^verbatim>\<open>_scaleImageImpl(factor)\<close>, up to the start of the animation.\<close>

definition scaleImageImpl :: "real \<Rightarrow> core \<Rightarrow> core \<times> pending" where
  "scaleImageImpl factor c =
     (case originalImage c of
        None \<Rightarrow> (c, Resolved)
      | Some r \<Rightarrow>
          if isAnimating c then (c, Resolved)
          else (let f = max (minScale (opts c)) (min (maxScale (opts c)) factor);
                    c1 = c\<lparr>currentScale := f, isAnimating := True\<rparr>;
                    targetAbs = baseImageScale c1 * f
                in (c1, ScaleAnimation targetAbs)))"

text \<open>
  The \<^verbatim>\<open>then\<close> callback run when both animations have completed: the scale is set
  to the target, the flag is cleared, the state is saved.  If there is no image any
  more, \<^verbatim>\<open>this.originalImage.set\<close> throws and the \<^verbatim>\<open>catch\<close> clears the flag.
\<close>

definition scale_completed :: "real \<Rightarrow> editor \<Rightarrow> editor" where
  "scale_completed targetAbs ed =
     (let c = core ed
      in case originalImage c of
           None \<Rightarrow> ed\<lparr>core := c\<lparr>isAnimating := False\<rparr>\<rparr>
         | Some r \<Rightarrow>
             saveState (ed\<lparr>core := c\<lparr>store := (store c)[r := set_scale targetAbs (store c ! r)],
                                    isAnimating := False\<rparr>\<rparr>))"

text \<open>\<^verbatim>\<open>_rotateImageImpl(degrees)\<close>; reals have no \<open>NaN\<close>, so that guard is absent.\<close>

definition rotateImageImpl :: "real \<Rightarrow> core \<Rightarrow> core \<times> pending" where
  "rotateImageImpl degrees c =
     (case originalImage c of
        None \<Rightarrow> (c, Resolved)
      | Some r \<Rightarrow>
          if isAnimating c then (c, Resolved)
          else (c\<lparr>currentRotation := degrees, isAnimating := True\<rparr>, RotateAnimation degrees))"

definition rotate_completed :: "real \<Rightarrow> editor \<Rightarrow> editor" where
  "rotate_completed degrees ed =
     (let c = core ed
      in case originalImage c of
           None \<Rightarrow> ed\<lparr>core := c\<lparr>isAnimating := False\<rparr>\<rparr>
         | Some r \<Rightarrow>
             saveState (ed\<lparr>core := c\<lparr>store := (store c)[r := set_angle degrees (store c ! r)],
                                    isAnimating := False\<rparr>\<rparr>))"

subsection \<open>Masks\<close>

text \<open>
  The configuration of \<^verbatim>\<open>addMask\<close>; \<open>None\<close> is an absent property.  Percentage
  strings, resolver functions, polygons, \<^verbatim>\<open>styles\<close> and \<^verbatim>\<open>fabricGenerator\<close> are
  not modelled.
\<close>

record MaskConfig =
  cfg_shape :: "shape option"
  cfg_width :: "real option"
  cfg_height :: "real option"
  cfg_left :: "real option"
  cfg_top :: "real option"
  cfg_radius :: "real option"
  cfg_rx :: "real option"
  cfg_ry :: "real option"
  cfg_gap :: "real option"
  cfg_alpha :: "real option"
  cfg_angle :: "real option"
  cfg_color :: "string option"
  cfg_selectable :: "bool option"

definition no_config :: MaskConfig where
  "no_config =
     \<lparr>cfg_shape = None, cfg_width = None, cfg_height = None, cfg_left = None, cfg_top = None,
      cfg_radius = None, cfg_rx = None, cfg_ry = None, cfg_gap = None, cfg_alpha = None,
      cfg_angle = None, cfg_color = None, cfg_selectable = None\<rparr>"

definition resolveValue :: "'a option \<Rightarrow> 'a \<Rightarrow> 'a" where
  "resolveValue val fallback = (case val of None \<Rightarrow> fallback | Some v \<Rightarrow> v)"

text \<open>The decimal digits of a number, for the template string of the mask name.\<close>

fun digits :: "nat \<Rightarrow> string" where
  "digits n =
     (if n < 10 then [''0123456789'' ! n]
      else digits (n div 10) @ [''0123456789'' ! (n mod 10)])"

declare digits.simps [simp del]

text \<open>
  \<^verbatim>\<open>addMask(config)\<close> up to its call of \<^verbatim>\<open>saveState()\<close>.  Without \<open>left\<close>
  in the configuration and with \<^verbatim>\<open>this._lastMask\<close> set, the mask goes to the right
  of that mask; otherwise to the given place, by default \<open>(10, 10)\<close>.
\<close>

definition addMask_scene :: "MaskConfig \<Rightarrow> core \<Rightarrow> core" where
  "addMask_scene config c =
     (let shapeType = resolveValue (cfg_shape config) Rect;
          gap = resolveValue (cfg_gap config) 5;
          alpha = resolveValue (cfg_alpha config) (1 / 2);
          color = resolveValue (cfg_color config) ''rgba(0,0,0,0.5)'';
          angle = resolveValue (cfg_angle config) 0;
          selectable = resolveValue (cfg_selectable config) True;
          firstOffset = 10;
          (left, top) =
            (case (cfg_left config, lastMask c) of
               (None, Some p) \<Rightarrow>
                 (let prev = store c ! p
                  in (of_int (round (obj_left prev + getScaledWidth prev + gap)), obj_top prev))
             | _ \<Rightarrow> (resolveValue (cfg_left config) firstOffset,
                     resolveValue (cfg_top config) firstOffset));
          width = resolveValue (cfg_width config) (defaultMaskWidth (opts c));
          height = resolveValue (cfg_height config) (defaultMaskHeight (opts c));
          (w, h) =
            (case shapeType of
               Rect \<Rightarrow> (width, height)
             | Circle \<Rightarrow>
                 (let rad = resolveValue (cfg_radius config) (min width height / 2)
                  in (2 * rad, 2 * rad))
             | Ellipse \<Rightarrow>
                 (2 * resolveValue (cfg_rx config) (width / 2),
                  2 * resolveValue (cfg_ry config) (height / 2)));
          newId = maskCounter c + 1;
          mask = \<lparr>maskId = newId, maskName = opt_maskName (opts c) @ digits newId,
                  m_shape = shapeType, m_left = left, m_top = top, m_width = w, m_height = h,
                  m_scaleX = 1, m_angle = angle, m_fill = color, m_opacity = alpha,
                  m_stroke = Some ''#ccc'', m_strokeWidth = 1, m_strokeUniform = True,
                  m_selectable = selectable,
                  m_lockRotation = (\<not> maskRotatable (opts c))\<rparr>;
          r = length (store c);
          c1 = c\<lparr>store := store c @ [Msk mask],
                 objects := objects c @ [r],
                 lastMaskInitialLeft := Some left,
                 lastMaskInitialTop := Some top,
                 lastMaskInitialWidth := Some width,
                 maskCounter := newId,
                 lastMask := Some r\<rparr>;
          c2 = (if selectable then c1\<lparr>activeObject := Some r\<rparr> else c1)
      in onSelectionChanged (Some r) c2)"

text \<open>
  \<^verbatim>\<open>addMask(config)\<close>: the scene changes as above, the state is saved, and the new
  mask is returned (here its reference).
\<close>

definition addMask :: "MaskConfig \<Rightarrow> editor \<Rightarrow> nat \<times> editor" where
  "addMask config ed =
     (length (store (core ed)), saveState (ed\<lparr>core := addMask_scene config (core ed)\<rparr>))"


text \<open>
  \<^verbatim>\<open>removeAllMasks()\<close>: the masks leave the canvas and the three fields
  \<^verbatim>\<open>_lastMaskInitialLeft\<close>, \<^verbatim>\<open>_lastMaskInitialTop\<close>, \<^verbatim>\<open>_lastMaskInitialWidth\<close>
  are set to \<open>null\<close>.
\<close>

definition removeAllMasks :: "editor \<Rightarrow> editor" where
  "removeAllMasks ed =
     (let c = core ed;
          c1 = c\<lparr>objects := filter (\<lambda>r. \<not> has_maskId (store c ! r)) (objects c)\<rparr>;
          c2 = discardActiveObject c1;
          c3 = c2\<lparr>lastMaskInitialLeft := None, lastMaskInitialTop := None,
                  lastMaskInitialWidth := None\<rparr>
      in saveState (ed\<lparr>core := c3\<rparr>))"

subsection \<open>Export: \<^verbatim>\<open>getImageBase64\<close> and \<^verbatim>\<open>merge\<close>\<close>

record ExportOptions =
  exportImageArea :: "bool option"
  multiplier :: "real option"

text \<open>
  The result of an export, by the canvas it was read from: an offscreen canvas of the
  given size holding the pixels of the source element; the fabric canvas rendered as a
  whole at a multiplier; an offscreen canvas holding the crop \<open>(sx, sy, sw, sh)\<close> of the
  rendered scene.  In each case the data URL is a JPEG.
\<close>

datatype export = SourcePixels nat nat | WholeCanvas real | CroppedScene int int int int

text \<open>The pixel size of the exported image, where the editor's own code sets it.\<close>

fun export_size :: "export \<Rightarrow> (int \<times> int) option" where
  "export_size (SourcePixels w h) = Some (int w, int h)"
| "export_size (CroppedScene sx sy sw sh) = Some (sw, sh)"
| "export_size (WholeCanvas m) = None"

datatype export_error = NoImageLoaded | CropFailed

text \<open>
  What the call observes of fabric and the browser: the bounding rectangle of the image
  (left, top, width, height) and whether rendering, decoding and cropping the scene
  succeed.
\<close>

record export_env =
  imgBr :: "real \<times> real \<times> real \<times> real"
  crop_ok :: bool

fun export_style :: "fobj \<Rightarrow> fobj" where
  "export_style (Msk m) =
     Msk (m\<lparr>m_opacity := 1, m_fill := ''#000000'', m_strokeWidth := 0, m_stroke := None,
            m_selectable := False\<rparr>)"
| "export_style (Img i) = Img i"

text \<open>\<^verbatim>\<open>b.obj.set({opacity: b.opacity, ...})\<close> for one entry of \<^verbatim>\<open>masksBackup\<close>.\<close>

fun restore_style :: "fobj \<Rightarrow> fobj \<Rightarrow> fobj" where
  "restore_style (Msk b) (Msk m) =
     Msk (m\<lparr>m_opacity := m_opacity b, m_fill := m_fill b, m_strokeWidth := m_strokeWidth b,
            m_stroke := m_stroke b, m_selectable := m_selectable b,
            m_lockRotation := m_lockRotation b\<rparr>)"
| "restore_style b ob = ob"

definition restore_masks :: "(nat \<times> fobj) list \<Rightarrow> fobj list \<Rightarrow> fobj list" where
  "restore_masks backup st = fold (\<lambda>(r, b) st'. st'[r := restore_style b (st' ! r)]) backup st"

text \<open>\<^verbatim>\<open>opts.multiplier || this.options.exportMultiplier || 1\<close>.\<close>

definition export_multiplier :: "ExportOptions \<Rightarrow> core \<Rightarrow> real" where
  "export_multiplier eo c =
     (case multiplier eo of
        Some m \<Rightarrow> (if m \<noteq> 0 then m
                   else if exportMultiplier (opts c) \<noteq> 0 then exportMultiplier (opts c) else 1)
      | None \<Rightarrow> (if exportMultiplier (opts c) \<noteq> 0 then exportMultiplier (opts c) else 1))"

text \<open>
  \<^verbatim>\<open>getImageBase64(opts)\<close>.  The result is a rejection (\<open>Inl\<close>) or the export
  (\<open>Inr\<close>), with the state the call leaves.  In the scene mode the masks are backed up,
  restyled, the scene is cropped inside an awaited promise, and the statements that
  restore the masks follow that \<^verbatim>\<open>await\<close>: when the promise rejects they do not run.
\<close>

definition getImageBase64 ::
  "ExportOptions \<Rightarrow> export_env \<Rightarrow> core \<Rightarrow> (export_error + export) \<times> core" where
  "getImageBase64 eo env c =
     (case originalImage c of
        None \<Rightarrow> (Inl NoImageLoaded, c)
      | Some r \<Rightarrow>
          (let area = (case exportImageArea eo of
                         Some b \<Rightarrow> b
                       | None \<Rightarrow> exportImageAreaByDefault (opts c));
               mult = export_multiplier eo c
           in if \<not> area then
                (case store c ! r of
                   Img i \<Rightarrow>
                     if \<not> img_element i then (Inr (WholeCanvas mult), c)
                     else (Inr (SourcePixels (img_width i) (img_height i)), c)
                 | Msk m \<Rightarrow> (Inr (WholeCanvas mult), c))
              else
                (let masks = mask_refs c;
                     masksBackup = map (\<lambda>m. (m, store c ! m)) masks;
                     c1 = discardActiveObject c;
                     c2 = c1\<lparr>store := update_store (\<lambda>r ob. export_style ob) masks (store c1)\<rparr>;
                     (bl, bt, bw, bh) = imgBr env;
                     sx = max 0 (round bl);
                     sy = max 0 (round bt);
                     sw = max 1 (round bw);
                     sh = max 1 (round bh)
                 in if crop_ok env then
                      (Inr (CroppedScene (round (of_int sx * mult)) (round (of_int sy * mult))
                                         (round (of_int sw * mult)) (round (of_int sh * mult))),
                       c2\<lparr>store := restore_masks masksBackup (store c2)\<rparr>)
                    else (Inl CropFailed, c2))))"


section \<open>The editor with its animation queue\<close>

text \<open>
  The closures given to the queue: \<^verbatim>\<open>() => this._scaleImageImpl(factor)\<close> and
  \<^verbatim>\<open>() => this._rotateImageImpl(deg)\<close>.
\<close>

datatype anim_fn = ScaleFn real | RotateFn real

text \<open>
  What the caller chained on the promise of \<open>add\<close>: nothing, or the two steps of
  \<^verbatim>\<open>reset()\<close> (\<^verbatim>\<open>.then(() => this.rotateImage(0))\<close>, then
  \<^verbatim>\<open>.then(() => { this.saveState(); })\<close>).
\<close>

datatype continuation = NoContinuation | ResetThenRotate | ResetThenSave

record world =
  editor :: editor
  animQueue :: "(anim_fn \<times> continuation) AnimationQueue"
  suspended :: "(continuation \<times> pending) list"

definition new_world :: "editor \<Rightarrow> world" where
  "new_world ed = \<lparr>editor = ed, animQueue = new_AnimationQueue, suspended = []\<rparr>"

text \<open>The entry that \<open>processQueue\<close> has shifted: its function is called.\<close>

fun call_entry :: "(anim_fn \<times> continuation) option \<Rightarrow> world \<Rightarrow> world" where
  "call_entry None w = w"
| "call_entry (Some (ScaleFn f, k)) w =
     (let (c', p) = scaleImageImpl f (core (editor w))
      in w\<lparr>editor := (editor w)\<lparr>core := c'\<rparr>, suspended := suspended w @ [(k, p)]\<rparr>)"
| "call_entry (Some (RotateFn d, k)) w =
     (let (c', p) = rotateImageImpl d (core (editor w))
      in w\<lparr>editor := (editor w)\<lparr>core := c'\<rparr>, suspended := suspended w @ [(k, p)]\<rparr>)"

definition world_add :: "anim_fn \<Rightarrow> continuation \<Rightarrow> world \<Rightarrow> world" where
  "world_add fn k w =
     (let (q', st) = queue_add (fn, k) (animQueue w)
      in call_entry st (w\<lparr>animQueue := q'\<rparr>))"

text \<open>\<^verbatim>\<open>scaleImage(factor)\<close>, \<^verbatim>\<open>rotateImage(deg)\<close>, \<^verbatim>\<open>reset()\<close>.\<close>

definition scaleImage :: "real \<Rightarrow> world \<Rightarrow> world" where
  "scaleImage factor w = world_add (ScaleFn factor) NoContinuation w"



text \<open>The promise of an implementation settles: its \<^verbatim>\<open>then\<close> callback has run.\<close>

fun completed :: "pending \<Rightarrow> editor \<Rightarrow> editor" where
  "completed Resolved ed = ed"
| "completed (ScaleAnimation t) ed = scale_completed t ed"
| "completed (RotateAnimation d) ed = rotate_completed d ed"

fun run_continuation :: "continuation \<Rightarrow> world \<Rightarrow> world" where
  "run_continuation NoContinuation w = w"
| "run_continuation ResetThenRotate w = world_add (RotateFn 0) ResetThenSave w"
| "run_continuation ResetThenSave w = w\<lparr>editor := saveState (editor w)\<rparr>"

text \<open>
  The promise awaited by the \<open>i\<close>-th suspended frame of \<open>processQueue\<close> settles: the
  frame resolves the caller's promise, calls \<open>processQueue\<close> again, which starts the
  next entry, and then the caller's continuation runs.
\<close>

definition settle :: "nat \<Rightarrow> world \<Rightarrow> world" where
  "settle i w =
     (if i < length (suspended w) then
        (let (k, p) = suspended w ! i;
             w1 = w\<lparr>editor := completed p (editor w),
                    suspended := take i (suspended w) @ drop (Suc i) (suspended w)\<rparr>;
             (q', st) = processQueue (animQueue w1);
             w2 = call_entry st (w1\<lparr>animQueue := q'\<rparr>)
         in run_continuation k w2)
      else w)"

text \<open>The editor is at rest: nothing queued, nothing running, no animation.\<close>

definition idle :: "world \<Rightarrow> bool" where
  "idle w = (queue (animQueue w) = [] \<and> \<not> running (animQueue w) \<and> suspended w = []
             \<and> \<not> isAnimating (core (editor w)))"

section \<open>The specification's clamp and an example scene\<close>

text \<open>The clamp of the specification: \<open>clamp(f, minScale, maxScale)\<close>.\<close>

definition scale_clamp :: "options \<Rightarrow> real \<Rightarrow> real" where
  "scale_clamp os f = max (minScale os) (min (maxScale os) f)"

text \<open>An example: the default editor after a 1000 x 800 image has loaded.\<close>

definition example_core :: core where
  "example_core = loadImage_onload 1000 800 (new_core default_options None)"

definition example_editor :: editor where
  "example_editor = \<lparr>core = example_core, historyManager = new_HistoryManager 50\<rparr>"

text \<open>The example with one mask added by \<^verbatim>\<open>addMask()\<close>.\<close>

definition example_masked :: editor where
  "example_masked = snd (addMask no_config example_editor)"

text \<open>Export options and observations used in the examples.\<close>

definition export_area :: ExportOptions where
  "export_area = \<lparr>exportImageArea = Some True, multiplier = None\<rparr>"

definition failing_crop :: export_env where
  "failing_crop = \<lparr>imgBr = (0, 0, 1000, 800), crop_ok = False\<rparr>"


text \<open>\<^verbatim>\<open>getImageBase64({exportImageArea: false, multiplier: m})\<close>.\<close>

definition no_scale_export :: "real option \<Rightarrow> ExportOptions" where
  "no_scale_export m = \<lparr>exportImageArea = Some False, multiplier = m\<rparr>"

text \<open>
  A snapshot in the order the editor keeps: no plain image anywhere but at the back
  (\<open>loadImage\<close> and \<open>loadFromState\<close> send the image to the back, masks are added in
  front).
\<close>

definition image_at_back :: "snapshot \<Rightarrow> bool" where
  "image_at_back j = list_all (\<lambda>ob. \<not> plain_image ob) (tl j)"

section \<open>Mask ids: the scene invariant and runs of operations\<close>


text \<open>
  The ids of the masks on the canvas, back to front.  What matters of an object for the
  ids: whether it is a mask, its id, whether it is a plain image.
\<close>

definition mask_ids :: "core \<Rightarrow> nat list" where
  "mask_ids c = map maskId_of (filter has_maskId (getObjects c))"

definition obj_kind :: "fobj \<Rightarrow> bool \<times> nat \<times> bool" where
  "obj_kind ob = (has_maskId ob, maskId_of ob, plain_image ob)"

text \<open>
  The scene is in order: the ids of the masks on the canvas are distinct and at most
  \<open>maskCounter\<close>, every reference of the canvas is in the store, and an image is on the
  canvas.  A snapshot is in order likewise.  A command keeps the order when both its
  closures do; the editor is in order when its scene, its last snapshot and every
  command of its history are.
\<close>

definition scene_ok :: "core \<Rightarrow> bool" where
  "scene_ok c =
     (distinct (mask_ids c)
      \<and> list_all (\<lambda>i. i \<le> maskCounter c) (mask_ids c)
      \<and> list_all (\<lambda>r. r < length (store c)) (objects c)
      \<and> list_ex plain_image (getObjects c))"

definition snapshot_ok :: "snapshot \<Rightarrow> bool" where
  "snapshot_ok j = (distinct (map maskId_of (filter has_maskId j)) \<and> list_ex plain_image j)"

definition core_ok :: "core \<Rightarrow> bool" where
  "core_ok c = (scene_ok c \<and> (case lastSnapshot c of None \<Rightarrow> True | Some j \<Rightarrow> snapshot_ok j))"









section \<open>History entries per operation\<close>






section \<open>Properties of the HistoryManager\<close>


lemma hm_execute_history:
  assumes "hm_execute c hm s = (hm', Returned s')" and "- 1 \<le> currentIndex hm"
  shows "history hm' =
           (let h = take (nat (currentIndex hm + 1)) (history hm) @ [c]
            in if int (length h) > maxSize hm then tl h else h)"
proof -
  have eq: "(if currentIndex hm < int (length (history hm)) - 1
             then js_slice0 (history hm) (currentIndex hm + 1) else history hm)
            = take (nat (currentIndex hm + 1)) (history hm)"
    using assms(2) by (auto simp: js_slice0_def)
  show ?thesis
    using assms(1) unfolding hm_execute_def eq
    by (auto simp: Let_def split: outcome.splits if_splits)
qed

lemma hm_execute_index:
  assumes "hm_execute c hm s = (hm', Returned s')" and "- 1 \<le> currentIndex hm"
  shows "int (length (history hm')) - 1 \<le> currentIndex hm'"
proof -
  have eq: "(if currentIndex hm < int (length (history hm)) - 1
             then js_slice0 (history hm) (currentIndex hm + 1) else history hm)
            = take (nat (currentIndex hm + 1)) (history hm)"
    using assms(2) by (auto simp: js_slice0_def)
  show ?thesis
    using assms unfolding hm_execute_def eq
    by (auto simp: Let_def min_def split: outcome.splits if_splits)
qed

lemma hm_undo_lower:
  assumes "- 1 \<le> currentIndex hm" and "hm_undo hm s = (hm', r)"
  shows "- 1 \<le> currentIndex hm'"
  using assms by (auto simp: hm_undo_def split: if_splits option.splits outcome.splits)

lemma hm_undo_times_lower:
  assumes "- 1 \<le> currentIndex hm" and "hm_undo_times n hm s = (hm', r)"
  shows "- 1 \<le> currentIndex hm'"
  using assms
proof (induction n arbitrary: hm s)
  case 0
  then show ?case by simp
next
  case (Suc n)
  obtain hm1 r1 where u: "hm_undo hm s = (hm1, r1)" by (cases "hm_undo hm s")
  have l1: "- 1 \<le> currentIndex hm1" using hm_undo_lower[OF Suc.prems(1) u] .
  show ?case
  proof (cases r1)
    case (Returned s1)
    then show ?thesis using Suc.IH[OF l1] Suc.prems(2) u by simp
  next
    case (Threw s1)
    then show ?thesis using Suc.prems(2) u l1 by simp
  qed
qed

text \<open>
  C4.  From every state of the HistoryManager whose cursor is at least \<open>-1\<close> (the
  constructor's value, which \<open>undo\<close> never undercuts), after any number of \<open>undo()\<close>
  calls, once \<open>execute(command)\<close> has returned: \<open>canRedo()\<close> is false and \<open>redo()\<close>
  changes nothing; the history is the part up to the cursor followed by the new command,
  so every previously redoable entry is gone; over capacity the oldest entry is dropped
  and the cursor keeps its value.
\<close>

theorem C4_execute_clears_redo:
  assumes "- 1 \<le> currentIndex hm0"
    and "hm_undo_times n hm0 s0 = (hm, Returned s)"
    and "hm_execute c hm s = (hm', Returned s')"
  shows "\<not> canRedo hm' \<and> hm_redo hm' s' = (hm', Returned s')
         \<and> history hm' =
             (let h = take (nat (currentIndex hm + 1)) (history hm) @ [c]
              in if int (length h) > maxSize hm then tl h else h)
         \<and> (int (length (take (nat (currentIndex hm + 1)) (history hm) @ [c])) > maxSize hm
              \<longrightarrow> currentIndex hm' = currentIndex hm)"
proof -
  have low: "- 1 \<le> currentIndex hm" using hm_undo_times_lower[OF assms(1,2)] .
  have idx: "int (length (history hm')) - 1 \<le> currentIndex hm'"
    using hm_execute_index[OF assms(3) low] .
  have nr: "\<not> canRedo hm'" using idx by (simp add: canRedo_def)
  have redo: "hm_redo hm' s' = (hm', Returned s')"
    using idx by (simp add: hm_redo_def)
  have ev: "int (length (take (nat (currentIndex hm + 1)) (history hm) @ [c])) > maxSize hm
              \<longrightarrow> currentIndex hm' = currentIndex hm"
  proof -
    have eq: "(if currentIndex hm < int (length (history hm)) - 1
               then js_slice0 (history hm) (currentIndex hm + 1) else history hm)
              = take (nat (currentIndex hm + 1)) (history hm)"
      using low by (auto simp: js_slice0_def)
    show ?thesis
      using assms(3) unfolding hm_execute_def eq
      by (auto simp: Let_def split: outcome.splits if_splits)
  qed
  show ?thesis using nr redo hm_execute_history[OF assms(3) low] ev by blast
qed

theorem C4_witness:
  "- 1 \<le> currentIndex \<lparr>history = [counting_command, counting_command], currentIndex = 1, maxSize = 2\<rparr>
   \<and> hm_undo_times 1 \<lparr>history = [counting_command, counting_command], currentIndex = 1, maxSize = 2\<rparr> (5::int)
       = (\<lparr>history = [counting_command, counting_command], currentIndex = 0, maxSize = 2\<rparr>, Returned 4)
   \<and> hm_execute counting_command
         \<lparr>history = [counting_command, counting_command], currentIndex = 0, maxSize = 2\<rparr> 4
       = (\<lparr>history = [counting_command, counting_command], currentIndex = 1, maxSize = 2\<rparr>, Returned 5)
   \<and> \<not> canRedo \<lparr>history = [counting_command, counting_command], currentIndex = 1, maxSize = (2::int)\<rparr>
   \<and> hm_redo \<lparr>history = [counting_command, counting_command], currentIndex = 1, maxSize = 2\<rparr> (5::int)
       = (\<lparr>history = [counting_command, counting_command], currentIndex = 1, maxSize = 2\<rparr>, Returned 5)"
proof -
  let ?h0 = "\<lparr>history = [counting_command, counting_command], currentIndex = 1, maxSize = 2\<rparr>"
  let ?h1 = "\<lparr>history = [counting_command, counting_command], currentIndex = 0, maxSize = 2\<rparr>"
  have a: "- 1 \<le> currentIndex ?h0" by simp
  have b: "hm_undo_times 1 ?h0 (5::int) = (?h1, Returned 4)"
    by (simp add: hm_undo_def js_index_def counting_command_def)
  have c: "hm_execute counting_command ?h1 4 = (?h0, Returned 5)"
    by (simp add: hm_execute_def js_slice0_def counting_command_def)
  from C4_execute_clears_redo[OF a b c] a b c show ?thesis by simp
qed

section \<open>Properties of the AnimationQueue\<close>

lemma started_append: "started (os @ os') = started os @ started os'"
  by (induction os rule: started.induct) auto

lemma delivered_append: "delivered (os @ os') = delivered os @ delivered os'"
  by (induction os rule: delivered.induct) auto

lemma in_flight_append: "in_flight (os @ os') = in_flight os + in_flight os'"
  by (induction os rule: in_flight.induct) auto

lemma sequential_append:
  "sequential n (os @ os') = (sequential n os \<and> sequential (nat (int n + in_flight os)) os')"
  by (induction n os rule: sequential.induct) (auto simp: add.commute)

lemma qinv_init: "qinv qsys_init"
  by (simp add: qinv_def qsys_init_def new_AnimationQueue_def)

lemma qinv_step: "qinv s \<Longrightarrow> qinv (qstep ev s)"
proof (cases ev)
  case (Add f)
  assume "qinv s"
  then show ?thesis
    unfolding Add qinv_def
    by (cases "awaiting s")
       (auto simp: queue_add_def processQueue_def Let_def started_append delivered_append
          in_flight_append sequential_append split: if_splits)
next
  case (Settle i out)
  assume inv: "qinv s"
  show ?thesis
  proof (cases "i < length (awaiting s)")
    case False
    then show ?thesis using inv Settle by simp
  next
    case True
    then obtain e where aw: "awaiting s = [e]" and i0: "i = 0"
      using inv by (cases "awaiting s") (auto simp: qinv_def)
    show ?thesis
      using inv unfolding Settle qinv_def
      by (cases "queue (aq s)")
         (auto simp: aw i0 processQueue_def Let_def started_append delivered_append
            in_flight_append sequential_append split: if_splits)
  qed
qed

lemma qinv_run: "qinv s \<Longrightarrow> qinv (qrun evs s)"
  unfolding qrun_def by (induction evs arbitrary: s) (auto simp: qinv_step)

lemma prefix_upt: "xs @ ys = [0..<n] \<Longrightarrow> xs = [0..<length xs]"
proof -
  assume a: "xs @ ys = [0..<n]"
  then have "length xs \<le> n" by (metis length_append length_upt le_add1 minus_nat.diff_0)
  moreover have "xs = take (length xs) (xs @ ys)" by simp
  ultimately show ?thesis using a by (metis take_upt add_0)
qed

lemma delivered_run:
  "map snd (delivered (trace (qrun evs s))) = map snd (delivered (trace s)) @ settled_outcomes evs s"
proof (induction evs arbitrary: s)
  case Nil
  then show ?case by (simp add: qrun_def)
next
  case (Cons ev evs)
  have step: "map snd (delivered (trace (qstep ev s)))
      = map snd (delivered (trace s)) @ (case ev of Add f \<Rightarrow> [] | Settle i out \<Rightarrow> if i < length (awaiting s) then [out] else [])"
    by (cases ev; cases "queue (aq s)")
       (auto simp: queue_add_def processQueue_def Let_def delivered_append split: if_splits prod.splits)
  show ?case
    using Cons.IH[of "qstep ev s"] step
    by (cases ev) (auto simp: qrun_def)
qed

section \<open>Scaling through the queue\<close>

lemma saveState_core:
  "core (saveState ed) =
     (core ed)\<lparr>lastSnapshot := Some (toJSON (core ed)),
               executedOnce := executedOnce (core ed) @ [True]\<rparr>"
  by (simp add: saveState_def hm_execute_def snapshot_command_def Let_def split: prod.splits)

lemma example_core_eval:
  "example_core = (new_core default_options None)\<lparr>store := [Img \<lparr>img_width = 1000, img_height = 800, img_scaleX = 1, img_scaleY = 1,
                      img_angle = 0, img_element = True\<rparr>], objects := [0], originalImage := Some 0, isImageLoadedToCanvas := True\<rparr>"
  by (simp add: example_core_def loadImage_onload_def canvas_clear_def discardActiveObject_def new_core_def default_options_def Let_def fitScale_def)

text \<open>
  C1.  With nothing queued or running: if an image is loaded and no animation is in
  progress, \<open>scaleImage(f)\<close> sets \<open>currentScale\<close> to
  \<open>max(minScale, min(maxScale, f))\<close> at once, and the value stands when the call has
  completed (the animation's promise has settled, the flag is cleared); if no image is
  loaded, the call resolves and leaves the editor as it was.
\<close>

theorem C1_scaleImage_clamps:
  assumes "queue (animQueue w) = []" and "\<not> running (animQueue w)" and "suspended w = []"
  shows "(originalImage (core (editor w)) \<noteq> None \<and> \<not> isAnimating (core (editor w)) \<longrightarrow>
            currentScale (core (editor (scaleImage f w))) = scale_clamp (opts (core (editor w))) f
          \<and> currentScale (core (editor (settle 0 (scaleImage f w)))) = scale_clamp (opts (core (editor w))) f
          \<and> suspended (settle 0 (scaleImage f w)) = []
          \<and> \<not> isAnimating (core (editor (settle 0 (scaleImage f w)))))
       \<and> (originalImage (core (editor w)) = None \<longrightarrow>
            suspended (scaleImage f w) = [(NoContinuation, Resolved)]
          \<and> suspended (settle 0 (scaleImage f w)) = []
          \<and> editor (settle 0 (scaleImage f w)) = editor w)"
  using assms
  by (auto simp: scaleImage_def world_add_def queue_add_def processQueue_def settle_def
      scaleImageImpl_def scale_completed_def saveState_core scale_clamp_def Let_def
      split: option.splits prod.splits)


lemma example_world_idle:
  "queue (animQueue (new_world example_editor)) = []
   \<and> \<not> running (animQueue (new_world example_editor))
   \<and> suspended (new_world example_editor) = []
   \<and> originalImage (core (editor (new_world example_editor))) = Some 0
   \<and> \<not> isAnimating (core (editor (new_world example_editor)))
   \<and> opts (core (editor (new_world example_editor))) = default_options"
  by (simp add: new_world_def example_editor_def example_core_eval new_core_def new_AnimationQueue_def)

theorem C1_witness:
  "queue (animQueue (new_world example_editor)) = []
   \<and> \<not> running (animQueue (new_world example_editor))
   \<and> suspended (new_world example_editor) = []
   \<and> originalImage (core (editor (new_world example_editor))) \<noteq> None
   \<and> \<not> isAnimating (core (editor (new_world example_editor)))
   \<and> currentScale (core (editor (settle 0 (scaleImage 7 (new_world example_editor))))) = 5"
  using C1_scaleImage_clamps[of "new_world example_editor" 7] example_world_idle
  by (simp add: scale_clamp_def default_options_def)

lemma set_scale_twice: "set_scale t (set_scale u ob) = set_scale t ob"
  by (cases ob) simp_all

lemma two_scales:
  assumes "queue (animQueue w) = []" and "\<not> running (animQueue w)" and "suspended w = []"
    and "originalImage (core (editor w)) = Some r" and "\<not> isAnimating (core (editor w))"
    and "r < length (store (core (editor w)))"
  shows "currentScale (core (editor (scaleImage b (scaleImage a w)))) = scale_clamp (opts (core (editor w))) a"
    and "queue (animQueue (scaleImage b (scaleImage a w))) = [(ScaleFn b, NoContinuation)]"
    and "suspended (settle 0 (scaleImage b (scaleImage a w)))
           = [(NoContinuation, ScaleAnimation (baseImageScale (core (editor w)) * scale_clamp (opts (core (editor w))) b))]"
    and "store (core (editor (settle 0 (scaleImage b (scaleImage a w))))) ! r
           = set_scale (baseImageScale (core (editor w)) * scale_clamp (opts (core (editor w))) a) (store (core (editor w)) ! r)"
    and "currentScale (core (editor (settle 0 (settle 0 (scaleImage b (scaleImage a w))))))
           = scale_clamp (opts (core (editor w))) b"
    and "store (core (editor (settle 0 (settle 0 (scaleImage b (scaleImage a w)))))) ! r
           = set_scale (baseImageScale (core (editor w)) * scale_clamp (opts (core (editor w))) b) (store (core (editor w)) ! r)"
    and "suspended (settle 0 (settle 0 (scaleImage b (scaleImage a w)))) = []"
    and "\<not> running (animQueue (settle 0 (settle 0 (scaleImage b (scaleImage a w)))))"
  using assms
  by (auto simp: scaleImage_def world_add_def queue_add_def processQueue_def settle_def
      scaleImageImpl_def scale_completed_def saveState_core scale_clamp_def Let_def set_scale_twice
      split: option.splits prod.splits)


lemma started_fifo:
  assumes "qinv s"
  shows "started (trace s) = [0..<length (started (trace s))]"
  using assms prefix_upt[of "started (trace s)" "map snd (queue (aq s))" "tickets s"]
  by (simp add: qinv_def)

lemma delivered_own:
  "delivered (trace (qrun evs qsys_init))
     = zip [0..<length (settled_outcomes evs qsys_init)] (settled_outcomes evs (qsys_init :: 'f qsys))"
proof -
  let ?s = "qrun evs (qsys_init :: 'f qsys)"
  let ?d = "delivered (trace ?s)"
  have inv: "qinv ?s" using qinv_run[OF qinv_init] .
  have outs: "map snd ?d = settled_outcomes evs (qsys_init :: 'f qsys)"
    using delivered_run[of evs "qsys_init :: 'f qsys"] by (simp add: qsys_init_def)
  have st: "started (trace ?s) = [0..<length (started (trace ?s))]" using started_fifo[OF inv] .
  have "map fst ?d @ map snd (awaiting ?s) = [0..<length (started (trace ?s))]"
    using inv st by (simp add: qinv_def)
  from prefix_upt[OF this] have tk: "map fst ?d = [0..<length ?d]" by simp
  have "?d = zip (map fst ?d) (map snd ?d)" by (simp add: zip_map_fst_snd)
  also have "\<dots> = zip [0..<length ?d] (settled_outcomes evs (qsys_init :: 'f qsys))"
    using tk outs by simp
  finally show ?thesis using outs by (metis length_map)
qed

lemma rejection_does_not_block:
  "aq (qstep (Settle i Rejected) s) = aq (qstep (Settle i Fulfilled) s)
   \<and> awaiting (qstep (Settle i Rejected) s) = awaiting (qstep (Settle i Fulfilled) s)
   \<and> started (trace (qstep (Settle i Rejected) s)) = started (trace (qstep (Settle i Fulfilled) s))"
  by (cases "queue (aq s)") (auto simp: processQueue_def Let_def started_append)

lemma settle_starts_next:
  assumes "qinv s" and "awaiting s \<noteq> []" and "queue (aq s) \<noteq> []"
  shows "awaiting (qstep (Settle 0 out) s) = [hd (queue (aq s))]"
proof -
  obtain e where aw: "awaiting s = [e]"
    using assms(1,2) by (cases "awaiting s") (auto simp: qinv_def)
  show ?thesis using assms(3) by (simp add: aw processQueue_def Let_def)
qed

text \<open>
  C2.  For every sequence of calls of \<open>add\<close> and of settlements: at most one function
  is in flight; the trace is sequential (a function starts only when the one before it
  has been delivered); functions start in the order of their submission; the \<open>i\<close>-th
  settlement, fulfilled or rejected, is delivered to the caller of ticket \<open>i\<close>, the
  function in flight; a rejection leaves the queue as a fulfilment does, and a
  settlement with a waiting entry starts that entry.  For an editor at rest with an
  image, two calls \<open>scaleImage(a)\<close>, \<open>scaleImage(b)\<close> without waiting: the second
  waits in the queue, the first completes at its own target, and when both have
  completed \<open>currentScale\<close> is the clamped \<open>b\<close> and the image is scaled to it.
\<close>

theorem C2_queue_sequential:
  assumes "queue (animQueue w) = []" and "\<not> running (animQueue w)" and "suspended w = []"
    and "originalImage (core (editor w)) = Some r" and "\<not> isAnimating (core (editor w))"
    and "r < length (store (core (editor w)))"
  shows "(\<forall>evs. let s = qrun evs (qsys_init :: 'f qsys) in
            length (awaiting s) \<le> 1
          \<and> sequential 0 (trace s)
          \<and> started (trace s) = [0..<length (started (trace s))]
          \<and> delivered (trace s)
               = zip [0..<length (settled_outcomes evs (qsys_init :: 'f qsys))]
                     (settled_outcomes evs (qsys_init :: 'f qsys))
          \<and> (\<forall>i. aq (qstep (Settle i Rejected) s) = aq (qstep (Settle i Fulfilled) s)
                 \<and> awaiting (qstep (Settle i Rejected) s) = awaiting (qstep (Settle i Fulfilled) s))
          \<and> (\<forall>out. awaiting s \<noteq> [] \<and> queue (aq s) \<noteq> []
                 \<longrightarrow> awaiting (qstep (Settle 0 out) s) = [hd (queue (aq s))]))
       \<and> currentScale (core (editor (scaleImage b (scaleImage a w))))
            = scale_clamp (opts (core (editor w))) a
       \<and> queue (animQueue (scaleImage b (scaleImage a w))) = [(ScaleFn b, NoContinuation)]
       \<and> store (core (editor (settle 0 (scaleImage b (scaleImage a w))))) ! r
            = set_scale (baseImageScale (core (editor w)) * scale_clamp (opts (core (editor w))) a)
                (store (core (editor w)) ! r)
       \<and> currentScale (core (editor (settle 0 (settle 0 (scaleImage b (scaleImage a w))))))
            = scale_clamp (opts (core (editor w))) b
       \<and> store (core (editor (settle 0 (settle 0 (scaleImage b (scaleImage a w)))))) ! r
            = set_scale (baseImageScale (core (editor w)) * scale_clamp (opts (core (editor w))) b)
                (store (core (editor w)) ! r)
       \<and> suspended (settle 0 (settle 0 (scaleImage b (scaleImage a w)))) = []"
proof -
  have q: "\<forall>evs. let s = qrun evs (qsys_init :: 'f qsys) in
            length (awaiting s) \<le> 1
          \<and> sequential 0 (trace s)
          \<and> started (trace s) = [0..<length (started (trace s))]
          \<and> delivered (trace s)
               = zip [0..<length (settled_outcomes evs (qsys_init :: 'f qsys))]
                     (settled_outcomes evs (qsys_init :: 'f qsys))
          \<and> (\<forall>i. aq (qstep (Settle i Rejected) s) = aq (qstep (Settle i Fulfilled) s)
                 \<and> awaiting (qstep (Settle i Rejected) s) = awaiting (qstep (Settle i Fulfilled) s))
          \<and> (\<forall>out. awaiting s \<noteq> [] \<and> queue (aq s) \<noteq> []
                 \<longrightarrow> awaiting (qstep (Settle 0 out) s) = [hd (queue (aq s))])"
  proof
    fix evs :: "'f qevent list"
    let ?s = "qrun evs (qsys_init :: 'f qsys)"
    have inv: "qinv ?s" using qinv_run[OF qinv_init] .
    have 1: "length (awaiting ?s) \<le> 1" and 2: "sequential 0 (trace ?s)"
      using inv by (simp_all add: qinv_def)
    show "let s = ?s in
            length (awaiting s) \<le> 1
          \<and> sequential 0 (trace s)
          \<and> started (trace s) = [0..<length (started (trace s))]
          \<and> delivered (trace s)
               = zip [0..<length (settled_outcomes evs (qsys_init :: 'f qsys))]
                     (settled_outcomes evs (qsys_init :: 'f qsys))
          \<and> (\<forall>i. aq (qstep (Settle i Rejected) s) = aq (qstep (Settle i Fulfilled) s)
                 \<and> awaiting (qstep (Settle i Rejected) s) = awaiting (qstep (Settle i Fulfilled) s))
          \<and> (\<forall>out. awaiting s \<noteq> [] \<and> queue (aq s) \<noteq> []
                 \<longrightarrow> awaiting (qstep (Settle 0 out) s) = [hd (queue (aq s))])"
      unfolding Let_def
      using 1 2 started_fifo[OF inv] delivered_own[of evs] rejection_does_not_block[of _ ?s]
        settle_starts_next[OF inv]
      by blast
  qed
  show ?thesis using q two_scales[OF assms, of b a] by blast
qed

theorem C2_witness:
  "queue (animQueue (new_world example_editor)) = []
   \<and> \<not> running (animQueue (new_world example_editor))
   \<and> suspended (new_world example_editor) = []
   \<and> originalImage (core (editor (new_world example_editor))) = Some 0
   \<and> \<not> isAnimating (core (editor (new_world example_editor)))
   \<and> 0 < length (store (core (editor (new_world example_editor))))
   \<and> currentScale (core (editor (settle 0 (settle 0
         (scaleImage 3 (scaleImage 2 (new_world example_editor))))))) = 3"
proof -
  have len: "0 < length (store (core (editor (new_world example_editor))))"
    by (simp add: new_world_def example_editor_def example_core_eval)
  have h: "queue (animQueue (new_world example_editor)) = []"
    "\<not> running (animQueue (new_world example_editor))"
    "suspended (new_world example_editor) = []"
    "originalImage (core (editor (new_world example_editor))) = Some 0"
    "\<not> isAnimating (core (editor (new_world example_editor)))"
    using example_world_idle by simp_all
  from C2_queue_sequential[where 'f = nat, OF h len, of 3 2] h len example_world_idle
  show ?thesis by (simp add: scale_clamp_def default_options_def)
qed

section \<open>The store and the example scene\<close>

lemma length_update_store [simp]: "length (update_store f rs st) = length st"
  by (simp add: update_store_def)

lemma nth_update_store:
  "r < length st \<Longrightarrow> update_store f rs st ! r = (if r \<in> set rs then f r (st ! r) else st ! r)"
  by (simp add: update_store_def)

lemma update_store_2: "update_store f rs [a, b] = [if 0 \<in> set rs then f 0 a else a, if 1 \<in> set rs then f 1 b else b]"
  by (simp add: update_store_def upt_rec)



lemma digits_small: "n < 10 \<Longrightarrow> digits n = [''0123456789'' ! n]"
  by (simp add: digits.simps[of n])

lemma example_masked_core:
  "core example_masked =
   \<lparr>opts = default_options,
    fabricLoaded = True,
    store =
      [Img \<lparr>img_width = 1000, img_height = 800, img_scaleX = 1,
              img_scaleY = 1, img_angle = 0, img_element = True\<rparr>,
       Msk \<lparr>maskId = 1, maskName = ''mask1'', m_shape = Rect, m_left = 10,
              m_top = 10, m_width = 50, m_height = 80, m_scaleX = 1,
              m_angle = 0, m_fill = ''rgba(0,0,0,0.5)'', m_opacity = 1 / 2,
              m_stroke = Some ''#ff0000'', m_strokeWidth = 1,
              m_strokeUniform = True, m_selectable = True,
              m_lockRotation = True\<rparr>],
    objects = [0, 1], activeObject = Some 1, containerClient = None,
    originalImage = Some 0, baseImageScale = 1, currentScale = 1,
    currentRotation = 0, maskCounter = 1, isAnimating = False,
    isImageLoadedToCanvas = True, lastMaskInitialLeft = Some 10,
    lastMaskInitialTop = Some 10, lastMaskInitialWidth = Some 50,
    lastMask = Some 1,
    lastSnapshot =
      Some
       [Img \<lparr>img_width = 1000, img_height = 800, img_scaleX = 1,
               img_scaleY = 1, img_angle = 0, img_element = True\<rparr>,
        Msk \<lparr>maskId = 1, maskName = ''mask1'', m_shape = Rect, m_left = 10,
               m_top = 10, m_width = 50, m_height = 80, m_scaleX = 1,
               m_angle = 0, m_fill = ''rgba(0,0,0,0.5)'', m_opacity = 1 / 2,
               m_stroke = Some ''#ff0000'', m_strokeWidth = 1,
               m_strokeUniform = True, m_selectable = True,
               m_lockRotation = False\<rparr>],
    executedOnce = [True]\<rparr>"
  by (simp add: example_masked_def addMask_def addMask_scene_def saveState_core example_editor_def
      example_core_eval
      new_core_def no_config_def resolveValue_def Let_def onSelectionChanged_def mask_refs_def
      update_store_2 toJSON_def getObjects_def default_options_def digits_small)


lemma maskId_of_set_stroke [simp]: "maskId_of (set_stroke a b ob) = maskId_of ob"
  by (cases ob) simp_all

lemma has_maskId_set_stroke [simp]: "has_maskId (set_stroke a b ob) = has_maskId ob"
  by (cases ob) simp_all

lemma discardActiveObject_fields [simp]:
  "opts (discardActiveObject c) = opts c"
  "fabricLoaded (discardActiveObject c) = fabricLoaded c"
  "objects (discardActiveObject c) = objects c"
  "originalImage (discardActiveObject c) = originalImage c"
  "maskCounter (discardActiveObject c) = maskCounter c"
  "currentScale (discardActiveObject c) = currentScale c"
  "currentRotation (discardActiveObject c) = currentRotation c"
  "lastMask (discardActiveObject c) = lastMask c"
  "lastSnapshot (discardActiveObject c) = lastSnapshot c"
  "executedOnce (discardActiveObject c) = executedOnce c"
  "containerClient (discardActiveObject c) = containerClient c"
  "length (store (discardActiveObject c)) = length (store c)"
  by (simp_all add: discardActiveObject_def onSelectionChanged_def split: option.splits)


lemma addMask_scene_fields [simp]:
  "maskCounter (addMask_scene cfg c) = maskCounter c + 1"
  "lastSnapshot (addMask_scene cfg c) = lastSnapshot c"
  "executedOnce (addMask_scene cfg c) = executedOnce c"
  "originalImage (addMask_scene cfg c) = originalImage c"
  "currentScale (addMask_scene cfg c) = currentScale c"
  "currentRotation (addMask_scene cfg c) = currentRotation c"
  "objects (addMask_scene cfg c) = objects c @ [length (store c)]"
  "length (store (addMask_scene cfg c)) = length (store c) + 1"
  by (simp_all add: addMask_scene_def Let_def onSelectionChanged_def split: prod.splits)




section \<open>Export and merge\<close>

text \<open>
  C3.  The example scene with one selected mask: \<open>getImageBase64\<close> in the scene mode
  whose crop fails rejects, and the mask keeps the export style (opacity 1, fill
  \<open>#000000\<close>, stroke width 0, no stroke, not selectable) instead of its values before
  the call.
\<close>

theorem C3_failed_crop_leaves_masks_restyled:
  "mask_refs (core example_masked) = [1]
   \<and> store (core example_masked) ! 1 =
     Msk \<lparr>maskId = 1, maskName = ''mask1'', m_shape = Rect, m_left = 10,
              m_top = 10, m_width = 50, m_height = 80, m_scaleX = 1,
              m_angle = 0, m_fill = ''rgba(0,0,0,0.5)'', m_opacity = 1 / 2,
              m_stroke = Some ''#ff0000'', m_strokeWidth = 1,
              m_strokeUniform = True, m_selectable = True,
              m_lockRotation = True\<rparr>
   \<and> fst (getImageBase64 export_area failing_crop (core example_masked)) = Inl CropFailed
   \<and> store (snd (getImageBase64 export_area failing_crop (core example_masked))) ! 1 =
     Msk \<lparr>maskId = 1, maskName = ''mask1'', m_shape = Rect, m_left = 10,
              m_top = 10, m_width = 50, m_height = 80, m_scaleX = 1,
              m_angle = 0, m_fill = ''#000000'', m_opacity = 1,
              m_stroke = None, m_strokeWidth = 0,
              m_strokeUniform = True, m_selectable = False,
              m_lockRotation = True\<rparr>"
  by (simp add: example_masked_core getImageBase64_def export_area_def failing_crop_def
      mask_refs_def discardActiveObject_def onSelectionChanged_def update_store_2
      export_multiplier_def default_options_def Let_def)

text \<open>
  C9.  For every editor state whose base image has its source element: the export with
  \<open>exportImageArea = false\<close> is the offscreen canvas of the image's own width and
  height, whatever the multiplier, the masks, and the scale and angle of the image; the
  state is left as it was.
\<close>

theorem C9_native_size:
  assumes "originalImage c = Some r" and "store c ! r = Img i" and "img_element i"
  shows "getImageBase64 (no_scale_export m) env c
           = (Inr (SourcePixels (img_width i) (img_height i)), c)
       \<and> export_size (SourcePixels (img_width i) (img_height i))
           = Some (int (img_width i), int (img_height i))
       \<and> getImageBase64 (no_scale_export m) env
            (c\<lparr>store := (store c)[r := set_angle d (set_scale t (store c ! r))]\<rparr>)
           = (Inr (SourcePixels (img_width i) (img_height i)),
              c\<lparr>store := (store c)[r := set_angle d (set_scale t (store c ! r))]\<rparr>)"
proof -
  have a: "getImageBase64 (no_scale_export m) env c
           = (Inr (SourcePixels (img_width i) (img_height i)), c)"
    using assms by (simp add: getImageBase64_def no_scale_export_def Let_def)
  have b: "getImageBase64 (no_scale_export m) env
            (c\<lparr>store := (store c)[r := set_angle d (set_scale t (store c ! r))]\<rparr>)
           = (Inr (SourcePixels (img_width i) (img_height i)),
              c\<lparr>store := (store c)[r := set_angle d (set_scale t (store c ! r))]\<rparr>)"
  proof (cases "r < length (store c)")
    case True
    then show ?thesis
      using assms by (simp add: getImageBase64_def no_scale_export_def Let_def)
  next
    case False
    then have "(store c)[r := set_angle d (set_scale t (store c ! r))] = store c"
      by (simp add: list_update_beyond)
    then show ?thesis using a by simp
  qed
  show ?thesis using a b by simp
qed

theorem C9_witness:
  "originalImage example_core = Some 0
   \<and> store example_core ! 0 = Img \<lparr>img_width = 1000, img_height = 800, img_scaleX = 1,
         img_scaleY = 1, img_angle = 0, img_element = True\<rparr>
   \<and> fst (getImageBase64 (no_scale_export None) failing_crop
         (example_core\<lparr>store := (store example_core)[0 := set_angle 90 (set_scale 2 (store example_core ! 0))]\<rparr>))
       = Inr (SourcePixels 1000 800)"
proof -
  have a: "originalImage example_core = Some 0" by (simp add: example_core_eval)
  have b: "store example_core ! 0 = Img \<lparr>img_width = 1000, img_height = 800, img_scaleX = 1,
         img_scaleY = 1, img_angle = 0, img_element = True\<rparr>" by (simp add: example_core_eval)
  have c: "img_element \<lparr>img_width = 1000, img_height = 800, img_scaleX = 1,
         img_scaleY = 1, img_angle = 0, img_element = True\<rparr>" by simp
  from C9_native_size[OF a b c, of None failing_crop 90 2] a b show ?thesis by simp
qed






section \<open>Placement of masks\<close>

lemma removeAll_example:
  "core (removeAllMasks example_masked) =
     (core example_masked)\<lparr>
        store := [Img \<lparr>img_width = 1000, img_height = 800, img_scaleX = 1,
              img_scaleY = 1, img_angle = 0, img_element = True\<rparr>,
       Msk \<lparr>maskId = 1, maskName = ''mask1'', m_shape = Rect, m_left = 10,
              m_top = 10, m_width = 50, m_height = 80, m_scaleX = 1,
              m_angle = 0, m_fill = ''rgba(0,0,0,0.5)'', m_opacity = 1 / 2,
              m_stroke = Some ''#ff0000'', m_strokeWidth = 1,
              m_strokeUniform = True, m_selectable = True,
              m_lockRotation = True\<rparr>],
        objects := [0], activeObject := None,
        lastMaskInitialLeft := None, lastMaskInitialTop := None, lastMaskInitialWidth := None,
        lastSnapshot := Some [Img \<lparr>img_width = 1000, img_height = 800, img_scaleX = 1,
              img_scaleY = 1, img_angle = 0, img_element = True\<rparr>],
        executedOnce := [True, True]\<rparr>"
  by (simp add: removeAllMasks_def saveState_core example_masked_core
      mask_refs_def discardActiveObject_def onSelectionChanged_def update_store_2
      toJSON_def getObjects_def Let_def)

text \<open>
  C6.  The example scene with one mask at \<open>(10, 10)\<close>: after \<open>removeAllMasks()\<close> no
  mask is on the canvas and \<open>_lastMaskInitialLeft\<close> is \<open>null\<close>, but \<open>_lastMask\<close>
  still refers to the removed mask, and the next \<open>addMask()\<close> without \<open>left\<close> and
  \<open>top\<close> places its mask at \<open>(66, 10)\<close>, to the right of the removed one.
\<close>

theorem C6_removed_mask_guides_placement:
  "mask_refs (core (removeAllMasks example_masked)) = []
   \<and> lastMaskInitialLeft (core (removeAllMasks example_masked)) = None
   \<and> lastMask (core (removeAllMasks example_masked)) = Some 1
   \<and> obj_left (store (core example_masked) ! 1) = 10
   \<and> obj_top (store (core example_masked) ! 1) = 10
   \<and> fst (addMask no_config (removeAllMasks example_masked)) = 2
   \<and> store (core (snd (addMask no_config (removeAllMasks example_masked)))) ! 2 =
     Msk \<lparr>maskId = 2, maskName = ''mask2'', m_shape = Rect, m_left = 66,
            m_top = 10, m_width = 50, m_height = 80, m_scaleX = 1,
            m_angle = 0, m_fill = ''rgba(0,0,0,0.5)'', m_opacity = 1 / 2,
            m_stroke = Some ''#ff0000'', m_strokeWidth = 1,
            m_strokeUniform = True, m_selectable = True,
            m_lockRotation = True\<rparr>"
  by (simp add: removeAll_example example_masked_core addMask_def addMask_scene_def saveState_core
      no_config_def resolveValue_def Let_def onSelectionChanged_def mask_refs_def
      update_store_def upt_rec default_options_def digits_small)


section \<open>Snapshots: undo and redo\<close>

lemma serialise_idem [simp]: "serialise (serialise ob) = serialise ob"
  by (cases ob) simp_all

lemma has_maskId_serialise [simp]: "has_maskId (serialise ob) = has_maskId ob"
  by (cases ob) simp_all

lemma plain_image_serialise [simp]: "plain_image (serialise ob) = plain_image ob"
  by (cases ob) simp_all

lemma maskId_of_serialise [simp]: "maskId_of (serialise ob) = maskId_of ob"
  by (cases ob) simp_all



lemma canvas_clear_fields [simp]:
  "opts (canvas_clear c) = opts c"
  "fabricLoaded (canvas_clear c) = fabricLoaded c"
  "objects (canvas_clear c) = []"
  "originalImage (canvas_clear c) = originalImage c"
  "maskCounter (canvas_clear c) = maskCounter c"
  "currentScale (canvas_clear c) = currentScale c"
  "currentRotation (canvas_clear c) = currentRotation c"
  "lastMask (canvas_clear c) = lastMask c"
  "lastSnapshot (canvas_clear c) = lastSnapshot c"
  "executedOnce (canvas_clear c) = executedOnce c"
  "containerClient (canvas_clear c) = containerClient c"
  "length (store (canvas_clear c)) = length (store c)"
  by (simp_all add: canvas_clear_def)


lemma loadFromJSON_fields [simp]:
  "opts (loadFromJSON j c) = opts c"
  "currentScale (loadFromJSON j c) = currentScale c"
  "currentRotation (loadFromJSON j c) = currentRotation c"
  "lastSnapshot (loadFromJSON j c) = lastSnapshot c"
  "executedOnce (loadFromJSON j c) = executedOnce c"
  "lastMask (loadFromJSON j c) = lastMask c"
  by (simp_all add: loadFromJSON_def Let_def)

lemma loadFromState_fields [simp]:
  "opts (loadFromState j c) = opts c"
  "currentScale (loadFromState j c) = currentScale c"
  "currentRotation (loadFromState j c) = currentRotation c"
  "lastSnapshot (loadFromState j c) = lastSnapshot c"
  "executedOnce (loadFromState j c) = executedOnce c"
  "lastMask (loadFromState j c) = lastMask c"
  by (simp_all add: loadFromState_def Let_def split: option.splits)






lemma find_hd: "xs \<noteq> [] \<Longrightarrow> P (hd xs) \<Longrightarrow> find P xs = Some (hd xs)"
  by (cases xs) auto







lemma toJSON_saveState [simp]: "toJSON (core (saveState ed)) = toJSON (core ed)"
  by (simp add: saveState_core toJSON_def getObjects_def)

lemma toJSON_serialised [simp]: "map serialise (toJSON c) = toJSON c"
  by (simp add: toJSON_def)

lemma image_at_back_serialise [simp]: "image_at_back (map serialise j) = image_at_back j"
  by (simp add: image_at_back_def list_all_iff map_tl[symmetric] del: map_tl)










lemma toJSON_executedOnce [simp]: "toJSON (c\<lparr>executedOnce := fl\<rparr>) = toJSON c"
  by (simp add: toJSON_def getObjects_def)

lemma toJSON_lastSnapshot [simp]: "toJSON (c\<lparr>lastSnapshot := sn\<rparr>) = toJSON c"
  by (simp add: toJSON_def getObjects_def)




section \<open>Mask ids\<close>



lemma saveState_maxSize [simp]:
  "maxSize (historyManager (saveState ed)) = maxSize (historyManager ed)"
  by (simp add: saveState_def hm_execute_def snapshot_command_def Let_def split: prod.splits)








lemma kinds_cong:
  assumes "\<forall>r \<in> set rs. obj_kind (f r) = obj_kind (g r)"
  shows "map maskId_of (filter has_maskId (map f rs)) = map maskId_of (filter has_maskId (map g rs))"
    and "list_ex plain_image (map f rs) = list_ex plain_image (map g rs)"
  using assms by (induction rs) (auto simp: obj_kind_def)

lemma scene_ok_cong:
  assumes "scene_ok c" and "objects c' = objects c" and "length (store c') = length (store c)"
    and "maskCounter c' = maskCounter c"
    and "\<forall>r < length (store c). obj_kind (store c' ! r) = obj_kind (store c ! r)"
  shows "scene_ok c'"
proof -
  have valid: "\<forall>r \<in> set (objects c). r < length (store c)"
    using assms(1) by (simp add: scene_ok_def list_all_iff)
  then have k: "\<forall>r \<in> set (objects c). obj_kind (store c' ! r) = obj_kind (store c ! r)"
    using assms(5) by blast
  have "mask_ids c' = mask_ids c"
    using kinds_cong(1)[OF k] by (simp add: mask_ids_def getObjects_def assms(2))
  moreover have "list_ex plain_image (getObjects c') = list_ex plain_image (getObjects c)"
    using kinds_cong(2)[OF k] by (simp add: getObjects_def assms(2))
  ultimately show ?thesis using assms(1-4) by (simp add: scene_ok_def)
qed

lemma obj_kind_set_stroke [simp]: "obj_kind (set_stroke a b ob) = obj_kind ob"
  by (cases ob) (simp_all add: obj_kind_def)

lemma obj_kind_set_scale [simp]: "obj_kind (set_scale t ob) = obj_kind ob"
  by (cases ob) (simp_all add: obj_kind_def)

lemma obj_kind_set_angle [simp]: "obj_kind (set_angle t ob) = obj_kind ob"
  by (cases ob) (simp_all add: obj_kind_def)

lemma obj_kind_export_style [simp]: "obj_kind (export_style ob) = obj_kind ob"
  by (cases ob) (simp_all add: obj_kind_def)

lemma obj_kind_restore_style [simp]: "obj_kind (restore_style b ob) = obj_kind ob"
  by (cases b; cases ob) (simp_all add: obj_kind_def)

lemma obj_kind_serialise [simp]: "obj_kind (serialise ob) = obj_kind ob"
  by (cases ob) (simp_all add: obj_kind_def)

lemma scene_ok_onSelectionChanged: "scene_ok c \<Longrightarrow> scene_ok (onSelectionChanged sel c)"
  by (rule scene_ok_cong[where c = c]) (simp_all add: onSelectionChanged_def nth_update_store)


lemma scene_ok_fields [simp]:
  "scene_ok (c\<lparr>activeObject := a\<rparr>) = scene_ok c"
  "scene_ok (c\<lparr>lastSnapshot := sn\<rparr>) = scene_ok c"
  "scene_ok (c\<lparr>executedOnce := fl\<rparr>) = scene_ok c"
  "scene_ok (c\<lparr>isAnimating := an\<rparr>) = scene_ok c"
  "scene_ok (c\<lparr>currentScale := sc\<rparr>) = scene_ok c"
  "scene_ok (c\<lparr>currentRotation := ro\<rparr>) = scene_ok c"
  "scene_ok (c\<lparr>lastMaskInitialLeft := l1\<rparr>) = scene_ok c"
  "scene_ok (c\<lparr>lastMaskInitialTop := l2\<rparr>) = scene_ok c"
  "scene_ok (c\<lparr>lastMaskInitialWidth := l3\<rparr>) = scene_ok c"
  "scene_ok (c\<lparr>lastMask := lm\<rparr>) = scene_ok c"
  "scene_ok (c\<lparr>originalImage := oi\<rparr>) = scene_ok c"
  by (simp_all add: scene_ok_def mask_ids_def getObjects_def)

lemma getObjects_append_new:
  assumes "\<forall>r \<in> set (objects c). r < length (store c)"
  shows "getObjects (c\<lparr>store := store c @ [ob], objects := objects c @ [length (store c)]\<rparr>)
           = getObjects c @ [ob]"
  using assms by (simp add: getObjects_def nth_append)










lemma core_ok_fields [simp]:
  "core_ok (c\<lparr>executedOnce := fl\<rparr>) = core_ok c"
  "core_ok (c\<lparr>isAnimating := an\<rparr>) = core_ok c"
  "core_ok (c\<lparr>currentScale := sc\<rparr>) = core_ok c"
  "core_ok (c\<lparr>currentRotation := ro\<rparr>) = core_ok c"
  "core_ok (c\<lparr>lastMaskInitialLeft := l1\<rparr>) = core_ok c"
  "core_ok (c\<lparr>lastMaskInitialTop := l2\<rparr>) = core_ok c"
  "core_ok (c\<lparr>lastMaskInitialWidth := l3\<rparr>) = core_ok c"
  by (simp_all add: core_ok_def)










lemma core_ok_onSelectionChanged: "core_ok c \<Longrightarrow> core_ok (onSelectionChanged sel c)"
  using scene_ok_onSelectionChanged[of c sel] by (simp add: core_ok_def onSelectionChanged_def)

























lemma maskCounter_removeAllMasks [simp]:
  "maskCounter (core (removeAllMasks ed)) = maskCounter (core ed)"
  by (simp add: removeAllMasks_def Let_def saveState_core)







section \<open>History entries appended by each operation\<close>






















end
